theory Spec2Isabelle
  imports Complex_Main
begin

section \<open>Values of decoded JSON rows\<close>

text \<open>
  An insight row is a Python dict from field names to decoded JSON scalars: null, a
  boolean, an integer, a float or a string.  Python integers are unbounded (\<open>int\<close>).
  Floats are idealised as reals: rounding, infinities, NaN and the OverflowError of
  converting an integer beyond the float range are outside this model.
\<close>

datatype pyval = PNone | PBool bool | PInt int | PFloat real | PStr string

datatype error = TypeError | KeyError | ValueError | ZeroDivisionError | AttributeError

type_synonym row = "string \<rightharpoonup> pyval"

text \<open>\<open>row.get(key)\<close>: the value, or None when the key is absent.\<close>

definition dict_get :: "row \<Rightarrow> string \<Rightarrow> pyval" where
  "dict_get r k = (case r k of None \<Rightarrow> PNone | Some v \<Rightarrow> v)"

text \<open>\<open>row.get(key, default)\<close>.\<close>

definition dict_get_default :: "row \<Rightarrow> string \<Rightarrow> pyval \<Rightarrow> pyval" where
  "dict_get_default r k d = (case r k of None \<Rightarrow> d | Some v \<Rightarrow> v)"

text \<open>
  \<open>isinstance(value, (int, float))\<close>.  In Python \<open>bool\<close> is a subclass of \<open>int\<close>, so
  booleans pass the test; strings never do, whatever characters they hold.
\<close>

fun is_number :: "pyval \<Rightarrow> bool" where
  "is_number (PBool b) = True"
| "is_number (PInt i) = True"
| "is_number (PFloat x) = True"
| "is_number v = False"

text \<open>\<open>isinstance(value, int)\<close>: integers and booleans.\<close>

fun is_int :: "pyval \<Rightarrow> bool" where
  "is_int (PBool b) = True"
| "is_int (PInt i) = True"
| "is_int v = False"

text \<open>The integer held by an \<open>int\<close> instance (True is 1, False is 0).\<close>

fun int_val :: "pyval \<Rightarrow> int" where
  "int_val (PBool b) = (if b then 1 else 0)"
| "int_val (PInt i) = i"
| "int_val v = 0"

text \<open>The numeric value of a number.\<close>

fun num_of :: "pyval \<Rightarrow> real" where
  "num_of (PBool b) = (if b then 1 else 0)"
| "num_of (PInt i) = of_int i"
| "num_of (PFloat x) = x"
| "num_of v = 0"

text \<open>
  Python's \<open>a + b\<close>: two \<open>int\<close> instances give an int, a float with a number gives a
  float, two strings concatenate, and every other pairing raises TypeError (in
  particular \<open>"" + 5\<close>).
\<close>

definition py_add :: "pyval \<Rightarrow> pyval \<Rightarrow> error + pyval" where
  "py_add a b =
     (case (a, b) of
        (PStr s, PStr t) \<Rightarrow> Inr (PStr (s @ t))
      | _ \<Rightarrow>
        if is_number a \<and> is_number b then
          (if is_int a \<and> is_int b then Inr (PInt (int_val a + int_val b))
           else Inr (PFloat (num_of a + num_of b)))
        else Inl TypeError)"

text \<open>
  Python's \<open>==\<close> on scalars, which is also the equality of dict keys: numbers compare
  by value across \<open>bool\<close>, \<open>int\<close> and \<open>float\<close> (\<open>1 == 1.0 == True\<close>), everything
  else compares within its own type.
\<close>

definition py_eq :: "pyval \<Rightarrow> pyval \<Rightarrow> bool" where
  "py_eq a b = (if is_number a \<and> is_number b then num_of a = num_of b else a = b)"

section \<open>The insertion-ordered dict of aggregated rows\<close>

text \<open>
  \<open>aggregated\<close> is a Python dict keyed by the group key; its values are the aggregated
  rows.  Python dicts keep insertion order, which \<open>list(aggregated.values())\<close> exposes,
  so the dict is an association list in insertion order.  Lookup and assignment are
  stated for any kind of value: the rows themselves here, their addresses in the
  store model further down.
\<close>

type_synonym aggdict = "(pyval \<times> row) list"

text \<open>\<open>aggregated[key]\<close> as an option; None stands for KeyError / \<open>key not in aggregated\<close>.\<close>

fun agg_lookup :: "(pyval \<times> 'a) list \<Rightarrow> pyval \<Rightarrow> 'a option" where
  "agg_lookup [] k = None"
| "agg_lookup ((k', r) # d) k = (if py_eq k' k then Some r else agg_lookup d k)"

text \<open>
  \<open>aggregated[key] = r\<close>: an existing entry keeps its place (and its first key
  object), a new one goes to the end.
\<close>

fun agg_store :: "(pyval \<times> 'a) list \<Rightarrow> pyval \<Rightarrow> 'a \<Rightarrow> (pyval \<times> 'a) list" where
  "agg_store [] k r = [(k, r)]"
| "agg_store ((k', r') # d) k r =
     (if py_eq k' k then (k', r) # d else (k', r') # agg_store d k r)"

section \<open>aggregate\_by\_account\<close>

text \<open>
  The seeding loop of a new group (views.py, lines 161 to 163):
  \<open>for field in fields: agg_row[field] = 0 if isinstance(row.get(field), (int, float)) else ""\<close>.
\<close>

fun seed_account :: "row \<Rightarrow> string list \<Rightarrow> row \<Rightarrow> row" where
  "seed_account r [] agg_row = agg_row"
| "seed_account r (field # fields) agg_row =
     seed_account r fields
       (agg_row(field \<mapsto> (if is_number (dict_get r field) then PInt 0 else PStr [])))"

text \<open>
  The accumulation loop (lines 165 to 168):
  \<open>for field in fields: value = row.get(field); if isinstance(value, (int, float)):
  aggregated[account][field] += value\<close>.
  Only the row's value is tested; the accumulated value is read and added to as it is.
\<close>

fun add_account :: "row \<Rightarrow> string list \<Rightarrow> row \<Rightarrow> error + row" where
  "add_account r [] agg_row = Inr agg_row"
| "add_account r (field # fields) agg_row =
     (let v = dict_get r field in
      if is_number v then
        (case agg_row field of
           None \<Rightarrow> Inl KeyError
         | Some a \<Rightarrow>
             (case py_add a v of
                Inl e \<Rightarrow> Inl e
              | Inr s \<Rightarrow> add_account r fields (agg_row(field \<mapsto> s))))
      else add_account r fields agg_row)"

text \<open>The body of \<open>for row in insights\<close> (lines 158 to 168).\<close>

definition account_step :: "string list \<Rightarrow> aggdict \<Rightarrow> row \<Rightarrow> error + aggdict" where
  "account_step fields aggregated r =
     (let account = dict_get r ''Account'';
          aggregated1 =
            (if agg_lookup aggregated account = None then
               agg_store aggregated account
                 (seed_account r fields
                    [''Platform'' \<mapsto> dict_get r ''Platform'', ''Account'' \<mapsto> account])
             else aggregated)
      in case agg_lookup aggregated1 account of
           None \<Rightarrow> Inl KeyError
         | Some agg_row \<Rightarrow>
             (case add_account r fields agg_row of
                Inl e \<Rightarrow> Inl e
              | Inr agg_row' \<Rightarrow> Inr (agg_store aggregated1 account agg_row')))"

fun account_loop :: "string list \<Rightarrow> aggdict \<Rightarrow> row list \<Rightarrow> error + aggdict" where
  "account_loop fields aggregated [] = Inr aggregated"
| "account_loop fields aggregated (r # insights) =
     (case account_step fields aggregated r of
        Inl e \<Rightarrow> Inl e
      | Inr aggregated' \<Rightarrow> account_loop fields aggregated' insights)"

definition aggregate_by_account :: "row list \<Rightarrow> string list \<Rightarrow> error + row list" where
  "aggregate_by_account insights fields =
     (case account_loop fields [] insights of
        Inl e \<Rightarrow> Inl e
      | Inr aggregated \<Rightarrow> Inr (map snd aggregated))"

section \<open>aggregate\_by\_platform\<close>






section \<open>The Python runtime outside the repository\<close>

text \<open>
  Three library behaviours the pipeline depends on are parameters of the model:
  \<open>repr\<close> of a float (how the csv writer prints it), \<open>float(s)\<close> on a string (None
  stands for ValueError), and the order in which \<open>list(a_set)\<close> iterates a set of
  strings, given the elements in the order they were added.
\<close>

datatype runtime = Runtime
  (float_repr: "real \<Rightarrow> string")
  (float_of_str: "string \<Rightarrow> real option")
  (set_to_list: "string list \<Rightarrow> string list")

text \<open>\<open>str(n)\<close> for an integer: its decimal digits, with a minus sign when negative.\<close>

fun str_nat :: "nat \<Rightarrow> string" where
  "str_nat n =
     (if n < 10 then [char_of (48 + n)]
      else str_nat (n div 10) @ [char_of (48 + n mod 10)])"

declare str_nat.simps [simp del]

definition str_int :: "int \<Rightarrow> string" where
  "str_int i = (if i < 0 then CHR ''-'' # str_nat (nat (- i)) else str_nat (nat i))"

text \<open>
  \<open>repr\<close> of a float that holds a whole number of magnitude below \<open>10^16\<close>: the
  digits of the integer followed by \<open>.0\<close>.  It instantiates \<open>float_repr\<close> at the
  concrete inputs below; \<open>remdups\<close> stands there for a set that iterates in the order
  of first insertion.
\<close>

definition repr_whole :: "real \<Rightarrow> string" where
  "repr_whole x = str_int \<lfloor>x\<rfloor> @ ''.0''"

definition insertion_runtime :: runtime where
  "insertion_runtime =
     Runtime repr_whole (\<lambda>s. None) remdups"

section \<open>generate\_csv\<close>

text \<open>
  \<open>csv.DictWriter\<close> with the default (excel) dialect: delimiter comma, quote
  character \<open>"\<close>, minimal quoting, doubled quotes, line terminator CR LF.  A field is
  quoted when it holds the delimiter, the quote character, CR or LF; a record made of
  one empty field is written as \<open>""\<close>.
\<close>

definition crlf :: string where
  "crlf = [CHR 0x0D, CHR 0x0A]"

definition needs_quotes :: "string \<Rightarrow> bool" where
  "needs_quotes s =
     list_ex (\<lambda>c. c = CHR '','' \<or> c = CHR 0x22 \<or> c = CHR 0x0D \<or> c = CHR 0x0A) s"

fun double_quotes :: "string \<Rightarrow> string" where
  "double_quotes [] = []"
| "double_quotes (c # s) =
     (if c = CHR 0x22 then CHR 0x22 # CHR 0x22 # double_quotes s else c # double_quotes s)"

definition csv_field :: "string \<Rightarrow> string" where
  "csv_field s =
     (if needs_quotes s then CHR 0x22 # double_quotes s @ [CHR 0x22] else s)"

text \<open>\<open>sep.join(items)\<close>.\<close>

fun join :: "string \<Rightarrow> string list \<Rightarrow> string" where
  "join sep [] = []"
| "join sep [x] = x"
| "join sep (x # y # ys) = x @ sep @ join sep (y # ys)"

text \<open>\<open>writer.writerow(cells)\<close>: the text one record adds to the output.\<close>

definition csv_record :: "string list \<Rightarrow> string" where
  "csv_record cells =
     (if cells = [[]] then [CHR 0x22, CHR 0x22] else join '','' (map csv_field cells)) @ crlf"

text \<open>
  How the writer turns a cell into text: None is written as the empty string, a string
  as it is, anything else through \<open>str\<close>.
\<close>

fun csv_text :: "runtime \<Rightarrow> pyval \<Rightarrow> string" where
  "csv_text rt PNone = []"
| "csv_text rt (PStr s) = s"
| "csv_text rt (PBool b) = (if b then ''True'' else ''False'')"
| "csv_text rt (PInt i) = str_int i"
| "csv_text rt (PFloat x) = float_repr rt x"

text \<open>
  \<open>DictWriter._dict_to_list\<close> with \<open>extrasaction='ignore'\<close> and the default
  \<open>restval=''\<close>: \<open>rowdict.get(key, '')\<close> for each key of \<open>fieldnames\<close>.
\<close>

definition dict_to_list :: "string list \<Rightarrow> row \<Rightarrow> pyval list" where
  "dict_to_list fieldnames r = map (\<lambda>key. dict_get_default r key (PStr [])) fieldnames"

text \<open>
  \<open>generate_csv\<close> (views.py, lines 227 to 241): \<open>writeheader\<close> writes the fieldnames
  as one record, then each row is written in order.
\<close>

definition generate_csv :: "runtime \<Rightarrow> row list \<Rightarrow> string list \<Rightarrow> string" where
  "generate_csv rt rows fieldnames =
     csv_record fieldnames
     @ concat (map (\<lambda>r. csv_record (map (csv_text rt) (dict_to_list fieldnames r))) rows)"

section \<open>The upstream API and the paginated fetch loops\<close>

text \<open>
  \<open>fetch_api\<close> returns the decoded JSON object, or None on a status other than 200 or
  a body that does not decode.  The upstream is the function from each request to
  that answer.  A page of a listing carries the named array (None when the key is
  absent) and the pagination object (None when absent), whose counters may each be
  missing.  Platforms, accounts and fields are objects of strings, as the upstream
  documents them.
\<close>

datatype pagination = Pagination
  (current: "int option")
  (total: "int option")

datatype 'a page = Page
  (items: "'a list option")
  (pagination: "pagination option")

datatype platform = Platform
  (value_of: string)
  (label_of: string)

datatype account = Account
  (id_of: string)
  (name_of: string)
  (token_of: string)

datatype field = Field
  (field_value: string)
  (field_label: string)

datatype upstream = Upstream
  (platforms_api: "platform list option option")
  (accounts_api: "string \<Rightarrow> nat \<Rightarrow> account page option")
  (fields_api: "string \<Rightarrow> nat \<Rightarrow> field page option")
  (insights_api:
     "string \<Rightarrow> string \<Rightarrow> string \<Rightarrow> string \<Rightarrow> nat \<Rightarrow> row page option")

text \<open>\<open>d.get(key, default)\<close> on an optional entry.\<close>

definition get_or :: "'a option \<Rightarrow> 'a \<Rightarrow> 'a" where
  "get_or entry dflt = (case entry of None \<Rightarrow> dflt | Some v \<Rightarrow> v)"

text \<open>\<open>get_platforms\<close> (lines 33 to 42).\<close>

definition get_platforms :: "upstream \<Rightarrow> platform list" where
  "get_platforms up =
     (case platforms_api up of
        None \<Rightarrow> []
      | Some data \<Rightarrow> (case data of None \<Rightarrow> [] | Some platforms \<Rightarrow> platforms))"

text \<open>
  \<open>get_accounts\<close> (lines 44 to 66).  The loop state is the accumulated list and the
  page number; the loop may never stop, so it is a partial function.  The result
  pairs the accumulated list with the value of \<open>page\<close> at the \<open>break\<close>: pages are
  requested from 1 upwards, one request per iteration, so that value is the number
  of requests made.
\<close>

partial_function (option) get_accounts_loop ::
  "upstream \<Rightarrow> string \<Rightarrow> account list \<Rightarrow> nat \<Rightarrow> (account list \<times> nat) option" where
  "get_accounts_loop up platform accounts page =
     (case accounts_api up platform page of
        None \<Rightarrow> Some (accounts, page)
      | Some data \<Rightarrow>
          (let new_accounts = get_or (items data) [] in
           if new_accounts = [] then Some (accounts, page)
           else
             (let accounts' = accounts @ new_accounts;
                  pagination = get_or (pagination data) (Pagination None None)
              in if get_or (current pagination) 1 \<ge> get_or (total pagination) 1
                 then Some (accounts', page)
                 else get_accounts_loop up platform accounts' (page + 1))))"

definition get_accounts :: "upstream \<Rightarrow> string \<Rightarrow> account list option" where
  "get_accounts up platform = map_option fst (get_accounts_loop up platform [] 1)"

text \<open>\<open>get_fields\<close> (lines 68 to 90); the result keeps the \<open>value\<close> of each field.\<close>

partial_function (option) get_fields_loop ::
  "upstream \<Rightarrow> string \<Rightarrow> field list \<Rightarrow> nat \<Rightarrow> (field list \<times> nat) option" where
  "get_fields_loop up platform fields page =
     (case fields_api up platform page of
        None \<Rightarrow> Some (fields, page)
      | Some data \<Rightarrow>
          (let new_fields = get_or (items data) [] in
           if new_fields = [] then Some (fields, page)
           else
             (let fields' = fields @ new_fields;
                  pagination = get_or (pagination data) (Pagination None None)
              in if get_or (current pagination) 1 \<ge> get_or (total pagination) 1
                 then Some (fields', page)
                 else get_fields_loop up platform fields' (page + 1))))"

definition get_fields :: "upstream \<Rightarrow> string \<Rightarrow> string list option" where
  "get_fields up platform =
     map_option (\<lambda>(fields, page). map field_value fields) (get_fields_loop up platform [] 1)"

text \<open>\<open>get_insights\<close> (lines 92 to 125).\<close>

partial_function (option) get_insights_loop ::
  "upstream \<Rightarrow> string \<Rightarrow> string \<Rightarrow> string \<Rightarrow> string \<Rightarrow> row list \<Rightarrow> nat
     \<Rightarrow> (row list \<times> nat) option" where
  "get_insights_loop up platform account account_token fields_str insights page =
     (case insights_api up platform account account_token fields_str page of
        None \<Rightarrow> Some (insights, page)
      | Some data \<Rightarrow>
          (let new_insights = get_or (items data) [] in
           if new_insights = [] then Some (insights, page)
           else
             (let insights' = insights @ new_insights;
                  pagination = get_or (pagination data) (Pagination None None)
              in if get_or (current pagination) 1 \<ge> get_or (total pagination) 1
                 then Some (insights', page)
                 else get_insights_loop up platform account account_token fields_str
                        insights' (page + 1))))"

definition get_insights ::
  "upstream \<Rightarrow> string \<Rightarrow> string \<Rightarrow> string list \<Rightarrow> string \<Rightarrow> row list option" where
  "get_insights up platform account fields account_token =
     map_option fst
       (get_insights_loop up platform account account_token (join '','' fields) [] 1)"





section \<open>The fetch pipeline\<close>

text \<open>
  The inner loops of \<open>get_insights_for_platform\<close> (lines 137 to 145): each insight
  of each account is stamped with the account's name and the platform, then appended.
\<close>

fun accounts_loop ::
  "upstream \<Rightarrow> string \<Rightarrow> string list \<Rightarrow> row list \<Rightarrow> account list \<Rightarrow> row list option" where
  "accounts_loop up platform fields all_insights [] = Some all_insights"
| "accounts_loop up platform fields all_insights (account # accounts) =
     (case get_insights up platform (id_of account) fields (token_of account) of
        None \<Rightarrow> None
      | Some insights \<Rightarrow>
          accounts_loop up platform fields
            (all_insights
             @ map (\<lambda>insight. insight(''Account'' \<mapsto> PStr (name_of account),
                                     ''Platform'' \<mapsto> PStr platform)) insights)
            accounts)"

definition get_insights_for_platform ::
  "upstream \<Rightarrow> string \<Rightarrow> (row list \<times> string list) option" where
  "get_insights_for_platform up platform =
     (case get_accounts up platform of
        None \<Rightarrow> None
      | Some accounts \<Rightarrow>
          (case get_fields up platform of
             None \<Rightarrow> None
           | Some fields \<Rightarrow>
               (case accounts_loop up platform fields [] accounts of
                  None \<Rightarrow> None
                | Some all_insights \<Rightarrow> Some (all_insights, fields))))"

section \<open>Cost per Click\<close>

text \<open>Python's truth value of a scalar, and \<open>a or b\<close>.\<close>

fun truthy :: "pyval \<Rightarrow> bool" where
  "truthy PNone = False"
| "truthy (PBool b) = b"
| "truthy (PInt i) = (i \<noteq> 0)"
| "truthy (PFloat x) = (x \<noteq> 0)"
| "truthy (PStr s) = (s \<noteq> [])"

definition py_or :: "pyval \<Rightarrow> pyval \<Rightarrow> pyval" where
  "py_or a b = (if truthy a then a else b)"

text \<open>\<open>float(v)\<close>: TypeError on None, ValueError on a string that is no number.\<close>

fun py_float :: "runtime \<Rightarrow> pyval \<Rightarrow> error + real" where
  "py_float rt PNone = Inl TypeError"
| "py_float rt (PBool b) = Inr (if b then 1 else 0)"
| "py_float rt (PInt i) = Inr (of_int i)"
| "py_float rt (PFloat x) = Inr x"
| "py_float rt (PStr s) =
     (case float_of_str rt s of None \<Rightarrow> Inl ValueError | Some x \<Rightarrow> Inr x)"

text \<open>\<open>a / b\<close> on floats.\<close>

definition py_truediv :: "real \<Rightarrow> real \<Rightarrow> error + real" where
  "py_truediv a b = (if b = 0 then Inl ZeroDivisionError else Inr (a / b))"

text \<open>The two operands (lines 190 and 191).\<close>

definition spend_operand :: "row \<Rightarrow> pyval" where
  "spend_operand r = py_or (py_or (dict_get r ''spend'') (dict_get r ''Spend'')) (PInt 0)"

definition clicks_operand :: "row \<Rightarrow> pyval" where
  "clicks_operand r = py_or (py_or (dict_get r ''clicks'') (dict_get r ''Clicks'')) (PInt 0)"

text \<open>
  The expression inside \<open>try\<close> (line 193),
  \<open>float(spend) / float(clicks) if clicks else 0\<close>, with the exceptions it can raise.
\<close>

definition cost_expression :: "runtime \<Rightarrow> pyval \<Rightarrow> pyval \<Rightarrow> error + pyval" where
  "cost_expression rt spend clicks =
     (if truthy clicks then
        (case py_float rt spend of
           Inl e \<Rightarrow> Inl e
         | Inr s \<Rightarrow>
             (case py_float rt clicks of
                Inl e \<Rightarrow> Inl e
              | Inr c \<Rightarrow>
                  (case py_truediv s c of Inl e \<Rightarrow> Inl e | Inr q \<Rightarrow> Inr (PFloat q))))
      else Inr (PInt 0))"

text \<open>The \<open>try\<close> / \<open>except Exception\<close> around it (lines 192 to 195).\<close>

definition cost_per_click :: "runtime \<Rightarrow> row \<Rightarrow> pyval" where
  "cost_per_click rt r =
     (case cost_expression rt (spend_operand r) (clicks_operand r) of
        Inl e \<Rightarrow> PInt 0
      | Inr v \<Rightarrow> v)"

text \<open>
  The loop over \<open>insights_all\<close> (lines 188 to 197): a ga4 row receives the derived
  value, and the name is appended to \<open>all_fields\<close> unless the list holds it.
\<close>

fun cost_loop :: "runtime \<Rightarrow> row list \<Rightarrow> string list \<Rightarrow> row list \<times> string list" where
  "cost_loop rt [] all_fields = ([], all_fields)"
| "cost_loop rt (r # insights_all) all_fields =
     (if py_eq (dict_get r ''Platform'') (PStr ''ga4'') then
        (let r' = r(''Cost per Click'' \<mapsto> cost_per_click rt r);
             all_fields' =
               (if ''Cost per Click'' \<in> set all_fields then all_fields
                else all_fields @ [''Cost per Click''])
         in case cost_loop rt insights_all all_fields' of
              (rows, fs) \<Rightarrow> (r' # rows, fs))
      else
        (case cost_loop rt insights_all all_fields of
           (rows, fs) \<Rightarrow> (r # rows, fs)))"

text \<open>
  The loop over the platforms (lines 181 to 185).  \<open>added\<close> lists the elements that
  \<open>all_fields.update(fields)\<close> has added to the set, in order.
\<close>

fun platforms_loop ::
  "upstream \<Rightarrow> row list \<Rightarrow> string list \<Rightarrow> platform list \<Rightarrow> (row list \<times> string list) option"
  where
  "platforms_loop up insights_all added [] = Some (insights_all, added)"
| "platforms_loop up insights_all added (platform_obj # platforms) =
     (case get_insights_for_platform up (value_of platform_obj) of
        None \<Rightarrow> None
      | Some (ins, fields) \<Rightarrow>
          platforms_loop up (insights_all @ ins) (added @ fields) platforms)"

definition get_all_insights ::
  "upstream \<Rightarrow> runtime \<Rightarrow> (row list \<times> string list) option" where
  "get_all_insights up rt =
     (case platforms_loop up [] [] (get_platforms up) of
        None \<Rightarrow> None
      | Some (insights_all, added) \<Rightarrow>
          Some (cost_loop rt insights_all
                  ([''Platform'', ''Account''] @ set_to_list rt added)))"

section \<open>The two routes over all platforms\<close>

datatype response = NotFound string | Csv string

text \<open>\<open>geral_report\<close> (routes.py, lines 120 to 129).\<close>

definition geral_report :: "upstream \<Rightarrow> runtime \<Rightarrow> response option" where
  "geral_report up rt =
     (case get_all_insights up rt of
        None \<Rightarrow> None
      | Some (insights, all_fields) \<Rightarrow>
          Some (if insights = [] then NotFound ''Nenhum dado encontrado.''
                else Csv (generate_csv rt insights all_fields)))"


section \<open>What the aggregation is meant to compute\<close>



definition numeric_values :: "string \<Rightarrow> row list \<Rightarrow> pyval list" where
  "numeric_values f rows = filter is_number (map (\<lambda>r. dict_get r f) rows)"






section \<open>One loop for both aggregators\<close>









section \<open>Concrete upstreams\<close>

text \<open>
  An upstream with one platform \<open>ga4\<close>, one account, the fields \<open>spend\<close> and
  \<open>clicks\<close> and one insight row, and a listing of three pages, used to evaluate the
  pipeline at concrete inputs.
\<close>

definition sample_upstream :: upstream where
  "sample_upstream =
     Upstream
       (Some (Some [Platform ''ga4'' ''Google Analytics'']))
       (\<lambda>platform page.
          if platform = ''ga4'' \<and> page = 1
          then Some (Page (Some [Account ''1'' ''Acme'' ''T1'']) None) else None)
       (\<lambda>platform page.
          if platform = ''ga4'' \<and> page = 1
          then Some (Page (Some [Field ''spend'' ''Spend'', Field ''clicks'' ''Clicks''])
                      (Some (Pagination (Some 1) (Some 1))))
          else None)
       (\<lambda>platform account token fields_str page.
          if platform = ''ga4'' \<and> account = ''1'' \<and> token = ''T1'' \<and> page = 1
          then Some (Page (Some [[''spend'' \<mapsto> PInt 100, ''clicks'' \<mapsto> PInt 50]]) None)
          else None)"


text \<open>A runtime whose sets iterate in the reverse of the insertion order.\<close>

definition reversed_runtime :: runtime where
  "reversed_runtime = Runtime repr_whole (\<lambda>s. None) (\<lambda>added. rev (remdups added))"


section \<open>Properties of the values and of the grouping\<close>





lemma num_of_int_val: "is_int v \<Longrightarrow> num_of v = of_int (int_val v)"
  by (cases v) auto

lemma is_int_number: "is_int v \<Longrightarrow> is_number v"
  by (cases v) auto














lemma numeric_values_snoc:
  "numeric_values f (g @ [r]) =
     numeric_values f g @ (if is_number (dict_get r f) then [dict_get r f] else [])"
  by (simp add: numeric_values_def)

































section \<open>Properties of the Cost per Click loop\<close>

lemma truthy_py_or: "truthy (py_or a b) = (truthy a \<or> truthy b)"
  by (simp add: py_or_def)



lemma truthy_number: "is_number v \<Longrightarrow> truthy v = (num_of v \<noteq> 0)"
  by (cases v) auto

lemma py_float_number: "is_number v \<Longrightarrow> py_float rt v = Inr (num_of v)"
  by (cases v) auto

lemma spend_operand_cases: "truthy (spend_operand r) \<or> spend_operand r = PInt 0"
  by (simp add: spend_operand_def py_or_def)


section \<open>Properties of the CSV writer\<close>





section \<open>The keys of the rows of aggregate\_by\_platform\<close>










section \<open>The fetch loops and the paginator\<close>












section \<open>The pipeline on one platform, one account and one row\<close>

lemma str_int_100: "str_int 100 = ''100''" by code_simp
lemma str_int_50: "str_int 50 = ''50''" by code_simp
lemma plain_cells:
  "csv_field ''ga4'' = ''ga4''" "csv_field ''100'' = ''100''" "csv_field ''50'' = ''50''"
  "csv_field ''2.0'' = ''2.0''" "csv_field ''Platform'' = ''Platform''"
  "csv_field ''Account'' = ''Account''" "csv_field ''spend'' = ''spend''"
  "csv_field ''clicks'' = ''clicks''" "csv_field ''Cost per Click'' = ''Cost per Click''"
  by code_simp+

lemma geral_single_row:
  assumes platforms: "get_platforms up = [platform_obj]" "value_of platform_obj = ''ga4''"
    and accounts: "get_accounts up ''ga4'' = Some [account]"
    and fields: "get_fields up ''ga4'' = Some [''spend'', ''clicks'']"
    and insights: "get_insights up ''ga4'' (id_of account) [''spend'', ''clicks''] (token_of account)
        = Some [[''spend'' \<mapsto> PInt 100, ''clicks'' \<mapsto> PInt 50]]"
    and order: "set (set_to_list rt [''spend'', ''clicks'']) = {''spend'', ''clicks''}"
  shows "get_all_insights up rt =
     Some ([[''spend'' \<mapsto> PInt 100, ''clicks'' \<mapsto> PInt 50,
             ''Account'' \<mapsto> PStr (name_of account), ''Platform'' \<mapsto> PStr ''ga4'',
             ''Cost per Click'' \<mapsto> PFloat 2]],
           [''Platform'', ''Account''] @ set_to_list rt [''spend'', ''clicks'']
             @ [''Cost per Click''])"
proof -
  let ?row = "[''spend'' \<mapsto> PInt 100, ''clicks'' \<mapsto> PInt 50,
             ''Account'' \<mapsto> PStr (name_of account), ''Platform'' \<mapsto> PStr ''ga4'']"
  have p: "get_insights_for_platform up ''ga4'' = Some ([?row], [''spend'', ''clicks''])"
    by (simp add: get_insights_for_platform_def accounts fields insights)
  have l: "platforms_loop up [] [] (get_platforms up) = Some ([?row], [''spend'', ''clicks''])"
    by (simp add: platforms p)
  have c: "cost_per_click rt ?row = PFloat 2"
    by (simp add: cost_per_click_def cost_expression_def spend_operand_def clicks_operand_def
          py_or_def dict_get_def py_truediv_def)
  have g: "py_eq (dict_get ?row ''Platform'') (PStr ''ga4'')"
    by (simp add: dict_get_def py_eq_def)
  have n: "''Cost per Click'' \<notin> set ([''Platform'', ''Account''] @ set_to_list rt [''spend'', ''clicks''])"
    by (simp add: order)
  have "cost_loop rt [?row] ([''Platform'', ''Account''] @ set_to_list rt [''spend'', ''clicks''])
      = ([?row(''Cost per Click'' \<mapsto> PFloat 2)],
         [''Platform'', ''Account''] @ set_to_list rt [''spend'', ''clicks''] @ [''Cost per Click''])"
    using g n c by (simp add: Let_def)
  then show ?thesis
    by (simp add: get_all_insights_def l)
qed


lemma header_spend_clicks:
  "csv_record [''Platform'', ''Account'', ''spend'', ''clicks'', ''Cost per Click'']
     = ''Platform,Account,spend,clicks,Cost per Click'' @ crlf"
  by code_simp

lemma header_clicks_spend:
  "csv_record [''Platform'', ''Account'', ''clicks'', ''spend'', ''Cost per Click'']
     = ''Platform,Account,clicks,spend,Cost per Click'' @ crlf"
  by code_simp

lemma geral_report_single_row_text:
  assumes platforms: "get_platforms up = [platform_obj]" "value_of platform_obj = ''ga4''"
    and accounts: "get_accounts up ''ga4'' = Some [account]"
    and fields: "get_fields up ''ga4'' = Some [''spend'', ''clicks'']"
    and insights: "get_insights up ''ga4'' (id_of account) [''spend'', ''clicks''] (token_of account)
        = Some [[''spend'' \<mapsto> PInt 100, ''clicks'' \<mapsto> PInt 50]]"
    and repr: "float_repr rt 2 = ''2.0''"
    and order: "set_to_list rt [''spend'', ''clicks''] = [''spend'', ''clicks'']
        \<or> set_to_list rt [''spend'', ''clicks''] = [''clicks'', ''spend'']"
  shows "geral_report up rt = Some (Csv
      (if set_to_list rt [''spend'', ''clicks''] = [''spend'', ''clicks'']
       then ''Platform,Account,spend,clicks,Cost per Click'' @ crlf
            @ ''ga4,'' @ csv_field (name_of account) @ '',100,50,2.0'' @ crlf
       else ''Platform,Account,clicks,spend,Cost per Click'' @ crlf
            @ ''ga4,'' @ csv_field (name_of account) @ '',50,100,2.0'' @ crlf))"
proof -
  have s: "set (set_to_list rt [''spend'', ''clicks'']) = {''spend'', ''clicks''}"
    using order by auto
  note all = geral_single_row [OF platforms accounts fields insights s]
  show ?thesis
  proof (cases "set_to_list rt [''spend'', ''clicks''] = [''spend'', ''clicks'']")
    case True
    show ?thesis
      unfolding geral_report_def all
      by (simp add: True generate_csv_def dict_to_list_def dict_get_default_def repr
            str_int_100 str_int_50 csv_record_def plain_cells)
  next
    case False
    then have o: "set_to_list rt [''spend'', ''clicks''] = [''clicks'', ''spend'']"
      using order by simp
    show ?thesis
      unfolding geral_report_def all
      by (simp add: o generate_csv_def dict_to_list_def dict_get_default_def repr
            str_int_100 str_int_50 csv_record_def plain_cells)
  qed
qed

lemma sample_platforms:
  "get_platforms sample_upstream = [Platform ''ga4'' ''Google Analytics'']"
  by (simp add: get_platforms_def sample_upstream_def)

lemma sample_accounts:
  "get_accounts sample_upstream ''ga4'' = Some [Account ''1'' ''Acme'' ''T1'']"
  unfolding get_accounts_def
  by (subst get_accounts_loop.simps) (simp add: sample_upstream_def get_or_def)

lemma sample_fields:
  "get_fields sample_upstream ''ga4'' = Some [''spend'', ''clicks'']"
  unfolding get_fields_def
  by (subst get_fields_loop.simps) (simp add: sample_upstream_def get_or_def)

lemma join_spend_clicks: "join '','' [''spend'', ''clicks''] = ''spend,clicks''"
  by simp

lemma sample_insights:
  "get_insights sample_upstream ''ga4'' ''1'' [''spend'', ''clicks''] ''T1''
     = Some [[''spend'' \<mapsto> PInt 100, ''clicks'' \<mapsto> PInt 50]]"
  unfolding get_insights_def
  by (subst get_insights_loop.simps) (simp add: sample_upstream_def get_or_def)

lemma repr_whole_2: "repr_whole 2 = ''2.0''"
  by (simp add: repr_whole_def) code_simp

lemma csv_field_Acme: "csv_field ''Acme'' = ''Acme''"
  by code_simp





section \<open>C1: what aggregate\_by\_account returns\<close>




section \<open>C2: the three fetch loops follow one termination policy\<close>



section \<open>C3: a text-seeded field that meets a number\<close>

text \<open>
  C3 (failing input).  Two rows of one account, where the field \<open>clicks\<close> is missing
  from the first row and is the integer 7 in the second.  The first row seeds the
  field with the empty string; the second row passes the numeric test and the code
  executes \<open>"" += 7\<close>, which raises TypeError.  The claim says the accumulated value
  is only updated when it is numeric and that the aggregation never raises.
\<close>

theorem aggregate_by_account_text_then_number_raises:
  "aggregate_by_account
     [[''Account'' \<mapsto> PStr ''a''],
      [''Account'' \<mapsto> PStr ''a'', ''clicks'' \<mapsto> PInt 7]]
     [''clicks'']
   = Inl TypeError"
  by (simp add: aggregate_by_account_def account_step_def dict_get_def py_eq_def py_add_def Let_def)

section \<open>C4: the Account column of aggregate\_by\_platform\<close>




section \<open>C5: the derived Cost per Click\<close>



section \<open>C6: the report over all platforms, end to end\<close>

text \<open>
  C6, as stated, fails: \<open>get_all_insights\<close> unions the field lists in a Python set
  and turns the set into a list, whose order is the set's iteration order.  On the
  upstream of the claim, with a set that iterates \<open>clicks\<close> before \<open>spend\<close>, the
  header is \<open>Platform,Account,clicks,spend,Cost per Click\<close> and the data row
  \<open>ga4,Acme,50,100,2.0\<close>.
\<close>

theorem geral_report_column_order_counterexample:
  "geral_report sample_upstream reversed_runtime
     = Some (Csv (''Platform,Account,clicks,spend,Cost per Click'' @ crlf
                  @ ''ga4,Acme,50,100,2.0'' @ crlf))
   \<and> geral_report sample_upstream reversed_runtime
     \<noteq> Some (Csv (''Platform,Account,spend,clicks,Cost per Click'' @ crlf
                  @ ''ga4,Acme,100,50,2.0'' @ crlf))"
proof -
  have r: "float_repr reversed_runtime 2 = ''2.0''"
    by (simp add: reversed_runtime_def repr_whole_2)
  have o: "set_to_list reversed_runtime [''spend'', ''clicks''] = [''clicks'', ''spend'']"
    by (simp add: reversed_runtime_def)
  have i: "get_insights sample_upstream ''ga4'' (id_of (Account ''1'' ''Acme'' ''T1''))
      [''spend'', ''clicks''] (token_of (Account ''1'' ''Acme'' ''T1''))
        = Some [[''spend'' \<mapsto> PInt 100, ''clicks'' \<mapsto> PInt 50]]"
    using sample_insights by simp
  show ?thesis
    using geral_report_single_row_text [OF sample_platforms _ sample_accounts sample_fields i r]
      o
    by (simp add: csv_field_Acme)
qed

text \<open>
  C6, amended.  Given an upstream with one platform ga4, one account, the fields
  \<open>[spend, clicks]\<close> and one insight row \<open>{spend: 100, clicks: 50}\<close>, and a float
  2.0 printed as \<open>2.0\<close>: the pipeline of \<open>/geral\<close> (\<open>get_all_insights\<close> followed
  by \<open>generate_csv\<close>) returns a CSV whose header is \<open>Platform,Account\<close>, then
  \<open>spend\<close> and \<open>clicks\<close> in the order in which the set of field names iterates,
  then \<open>Cost per Click\<close>, followed by one data row with \<open>ga4\<close>, the account name as
  the csv writer encodes it, the values 100 and 50 in the same column order, and
  \<open>2.0\<close>.  When the set iterates \<open>spend\<close> first this is the header
  \<open>Platform,Account,spend,clicks,Cost per Click\<close> and the row
  \<open>ga4,<account name>,100,50,2.0\<close>.
\<close>

theorem geral_report_single_row:
  assumes "get_platforms up = [platform_obj]" and "value_of platform_obj = ''ga4''"
    and "get_accounts up ''ga4'' = Some [account]"
    and "get_fields up ''ga4'' = Some [''spend'', ''clicks'']"
    and "get_insights up ''ga4'' (id_of account) [''spend'', ''clicks''] (token_of account)
        = Some [[''spend'' \<mapsto> PInt 100, ''clicks'' \<mapsto> PInt 50]]"
    and "float_repr rt 2 = ''2.0''"
    and "set_to_list rt [''spend'', ''clicks''] = [''spend'', ''clicks'']
        \<or> set_to_list rt [''spend'', ''clicks''] = [''clicks'', ''spend'']"
  shows "geral_report up rt = Some (Csv
      (if set_to_list rt [''spend'', ''clicks''] = [''spend'', ''clicks'']
       then ''Platform,Account,spend,clicks,Cost per Click'' @ crlf
            @ ''ga4,'' @ csv_field (name_of account) @ '',100,50,2.0'' @ crlf
       else ''Platform,Account,clicks,spend,Cost per Click'' @ crlf
            @ ''ga4,'' @ csv_field (name_of account) @ '',50,100,2.0'' @ crlf))"
  using assms by (rule geral_report_single_row_text)

theorem geral_report_single_row_witness:
  "get_platforms sample_upstream = [Platform ''ga4'' ''Google Analytics'']
   \<and> value_of (Platform ''ga4'' ''Google Analytics'') = ''ga4''
   \<and> get_accounts sample_upstream ''ga4'' = Some [Account ''1'' ''Acme'' ''T1'']
   \<and> get_fields sample_upstream ''ga4'' = Some [''spend'', ''clicks'']
   \<and> get_insights sample_upstream ''ga4'' ''1'' [''spend'', ''clicks''] ''T1''
        = Some [[''spend'' \<mapsto> PInt 100, ''clicks'' \<mapsto> PInt 50]]
   \<and> float_repr insertion_runtime 2 = ''2.0''
   \<and> set_to_list insertion_runtime [''spend'', ''clicks''] = [''spend'', ''clicks'']
   \<and> geral_report sample_upstream insertion_runtime
        = Some (Csv (''Platform,Account,spend,clicks,Cost per Click'' @ crlf
                     @ ''ga4,Acme,100,50,2.0'' @ crlf))"
proof -
  have r: "float_repr insertion_runtime 2 = ''2.0''"
    by (simp add: insertion_runtime_def repr_whole_2)
  have o: "set_to_list insertion_runtime [''spend'', ''clicks''] = [''spend'', ''clicks'']"
    by (simp add: insertion_runtime_def)
  have i: "get_insights sample_upstream ''ga4'' (id_of (Account ''1'' ''Acme'' ''T1''))
      [''spend'', ''clicks''] (token_of (Account ''1'' ''Acme'' ''T1''))
        = Some [[''spend'' \<mapsto> PInt 100, ''clicks'' \<mapsto> PInt 50]]"
    using sample_insights by simp
  have "geral_report sample_upstream insertion_runtime
        = Some (Csv (''Platform,Account,spend,clicks,Cost per Click'' @ crlf
                     @ ''ga4,Acme,100,50,2.0'' @ crlf))"
    using geral_report_single_row [OF sample_platforms _ sample_accounts sample_fields i r]
      o
    by (simp add: csv_field_Acme)
  then show ?thesis using r o sample_platforms sample_accounts sample_fields sample_insights
    by simp
qed

section \<open>C7: what generate\_csv writes\<close>




section \<open>C8: booleans are numbers for both aggregators\<close>



section \<open>C10: falsy operands fall through to the other casing\<close>

text \<open>
  C10.  The numerator is \<open>row.get("spend") or row.get("Spend") or 0\<close>: when
  \<open>spend\<close> holds a falsy value (0, 0.0, False, None, the empty string, or is absent)
  and \<open>Spend\<close> a truthy one, the \<open>Spend\<close> value is the operand and is what the
  division receives; a truthy \<open>spend\<close> is used itself; the operand is the default 0
  only when both casings are falsy.  The same holds for \<open>clicks\<close> and \<open>Clicks\<close>.
\<close>

theorem cost_operands_fall_through:
  "(\<not> truthy (dict_get r ''spend'') \<and> truthy (dict_get r ''Spend'') \<longrightarrow>
      spend_operand r = dict_get r ''Spend''
      \<and> cost_per_click rt r =
          (case cost_expression rt (dict_get r ''Spend'') (clicks_operand r) of
             Inl e \<Rightarrow> PInt 0 | Inr v \<Rightarrow> v))
   \<and> (\<not> truthy (dict_get r ''clicks'') \<and> truthy (dict_get r ''Clicks'') \<longrightarrow>
      clicks_operand r = dict_get r ''Clicks''
      \<and> cost_per_click rt r =
          (case cost_expression rt (spend_operand r) (dict_get r ''Clicks'') of
             Inl e \<Rightarrow> PInt 0 | Inr v \<Rightarrow> v))
   \<and> (truthy (dict_get r ''spend'') \<longrightarrow> spend_operand r = dict_get r ''spend'')
   \<and> (truthy (dict_get r ''clicks'') \<longrightarrow> clicks_operand r = dict_get r ''clicks'')
   \<and> (\<not> truthy (dict_get r ''spend'') \<and> \<not> truthy (dict_get r ''Spend'') \<longrightarrow>
      spend_operand r = PInt 0)
   \<and> (\<not> truthy (dict_get r ''clicks'') \<and> \<not> truthy (dict_get r ''Clicks'') \<longrightarrow>
      clicks_operand r = PInt 0)
   \<and> (truthy (spend_operand r) = (truthy (dict_get r ''spend'') \<or> truthy (dict_get r ''Spend'')))
   \<and> (truthy (clicks_operand r)
        = (truthy (dict_get r ''clicks'') \<or> truthy (dict_get r ''Clicks'')))"
  by (simp add: spend_operand_def clicks_operand_def py_or_def cost_per_click_def)

theorem cost_operands_fall_through_witness:
  "\<not> truthy (dict_get [''spend'' \<mapsto> PInt 0, ''Spend'' \<mapsto> PInt 100, ''Clicks'' \<mapsto> PInt 50] ''spend'')
   \<and> truthy (dict_get [''spend'' \<mapsto> PInt 0, ''Spend'' \<mapsto> PInt 100, ''Clicks'' \<mapsto> PInt 50] ''Spend'')
   \<and> \<not> truthy (dict_get [''spend'' \<mapsto> PInt 0, ''Spend'' \<mapsto> PInt 100, ''Clicks'' \<mapsto> PInt 50] ''clicks'')
   \<and> truthy (dict_get [''spend'' \<mapsto> PInt 0, ''Spend'' \<mapsto> PInt 100, ''Clicks'' \<mapsto> PInt 50] ''Clicks'')
   \<and> spend_operand [''spend'' \<mapsto> PInt 0, ''Spend'' \<mapsto> PInt 100, ''Clicks'' \<mapsto> PInt 50] = PInt 100
   \<and> clicks_operand [''spend'' \<mapsto> PInt 0, ''Spend'' \<mapsto> PInt 100, ''Clicks'' \<mapsto> PInt 50] = PInt 50
   \<and> cost_per_click insertion_runtime
        [''spend'' \<mapsto> PInt 0, ''Spend'' \<mapsto> PInt 100, ''Clicks'' \<mapsto> PInt 50] = PFloat 2
   \<and> truthy (dict_get [''spend'' \<mapsto> PInt 3, ''Spend'' \<mapsto> PInt 100] ''spend'')
   \<and> spend_operand [''spend'' \<mapsto> PInt 3, ''Spend'' \<mapsto> PInt 100] = PInt 3
   \<and> \<not> truthy (dict_get [''spend'' \<mapsto> PInt 0, ''Spend'' \<mapsto> PStr []] ''spend'')
   \<and> \<not> truthy (dict_get [''spend'' \<mapsto> PInt 0, ''Spend'' \<mapsto> PStr []] ''Spend'')
   \<and> spend_operand [''spend'' \<mapsto> PInt 0, ''Spend'' \<mapsto> PStr []] = PInt 0"
proof -
  let ?r = "[''spend'' \<mapsto> PInt 0, ''Spend'' \<mapsto> PInt 100, ''Clicks'' \<mapsto> PInt 50]"
  let ?r2 = "[''spend'' \<mapsto> PInt 3, ''Spend'' \<mapsto> PInt 100]"
  let ?r3 = "[''spend'' \<mapsto> PInt 0, ''Spend'' \<mapsto> PStr []]"
  have g: "dict_get ?r ''spend'' = PInt 0" "dict_get ?r ''Spend'' = PInt 100"
    "dict_get ?r ''clicks'' = PNone" "dict_get ?r ''Clicks'' = PInt 50"
    "dict_get ?r2 ''spend'' = PInt 3" "dict_get ?r3 ''spend'' = PInt 0"
    "dict_get ?r3 ''Spend'' = PStr []"
    by (simp_all add: dict_get_def)
  have 1: "spend_operand ?r = PInt 100 \<and> clicks_operand ?r = PInt 50
      \<and> cost_per_click insertion_runtime ?r = PFloat 2"
    using cost_operands_fall_through [of ?r insertion_runtime]
    by (simp add: g cost_expression_def py_truediv_def)
  have 2: "spend_operand ?r2 = PInt 3"
    using cost_operands_fall_through [of ?r2 insertion_runtime] by (simp add: g)
  have 3: "spend_operand ?r3 = PInt 0"
    using cost_operands_fall_through [of ?r3 insertion_runtime] by (simp add: g)
  show ?thesis using 1 2 3 by (simp add: g)
qed

end
